theory Spec2Isabelle
  imports Complex_Main
begin

section \<open>Python values and exceptions\<close>

text \<open>
  The notebook \<^verbatim>\<open>VQE_Anderson_model.ipynb\<close> is a sequence of Python cells. The values
  its own statements compute with are integers, floats, lists of numbers and the
  \<^verbatim>\<open>...\<close> placeholder object. A raised exception is the left summand of a result.
\<close>

datatype error = TypeError | IndexError | ZeroDivisionError

datatype pyval =
    PInt int
  | PFloat real
  | PList "pyval list"
  | PEllipsis

text \<open>
  \<^verbatim>\<open>range(n)\<close>, as the list of indices a \<^verbatim>\<open>for\<close> loop or a comprehension runs
  through. Python accepts an integer only: any other object raises
  \<^verbatim>\<open>TypeError\<close> ("object cannot be interpreted as an integer"). A negative integer
  gives the empty range.
\<close>

fun range_py :: "pyval \<Rightarrow> error + nat list" where
  "range_py (PInt n) = Inr [0..<nat n]"
| "range_py (PFloat x) = Inl TypeError"
| "range_py (PList xs) = Inl TypeError"
| "range_py PEllipsis = Inl TypeError"

text \<open>\<^verbatim>\<open>xs[i]\<close> for an index \<open>i \<ge> 0\<close>: out of range raises \<^verbatim>\<open>IndexError\<close>.\<close>

definition index_py :: "'a list \<Rightarrow> nat \<Rightarrow> error + 'a" where
  "index_py xs i = (if i < length xs then Inr (xs ! i) else Inl IndexError)"

text \<open>
  \<^verbatim>\<open>'%s' % i\<close> for a non-negative integer \<open>i\<close>: its decimal digits, most significant
  first, with no leading zero.
\<close>

definition digit_char :: "nat \<Rightarrow> char" where
  "digit_char d = char_of (48 + d)"

function str_nat :: "nat \<Rightarrow> string" where
  "str_nat n = (if n < 10 then [digit_char n] else str_nat (n div 10) @ [digit_char (n mod 10)])"
  by pat_completeness auto
termination
  by (relation "measure (\<lambda>n. n)") auto

declare str_nat.simps [simp del]

text \<open>Reading a decimal numeral back; used to show that \<^const>\<open>str_nat\<close> is injective.\<close>

definition digit_val :: "char \<Rightarrow> nat" where
  "digit_val c = of_char c - 48"

definition nat_of_str :: "string \<Rightarrow> nat" where
  "nat_of_str s = foldl (\<lambda>a c. 10 * a + digit_val c) 0 s"

section \<open>The circuit builder of the library\<close>

text \<open>
  \<^verbatim>\<open>Program\<close>, \<^verbatim>\<open>qalloc\<close>, \<^verbatim>\<open>new_var\<close>, the gate constructors and
  \<^verbatim>\<open>to_circ\<close> belong to the imported package \<^verbatim>\<open>qat.lang.AQASM\<close>, which is not part
  of the notebook. They are modelled by what a program object records: the number of
  qubits allocated so far, the variables declared, and the gates applied, in order. A
  register is the list of the qubit indices it holds. The qubit count is a natural
  number.
\<close>

datatype var_type = Float_t

datatype angle = Variable string | Number real

datatype gate = RY angle | RX angle | RZ angle | CNOT

type_synonym op = "gate \<times> nat list"

record program =
  qbit_count :: nat
  var_decls :: "(string \<times> var_type) list"
  op_list :: "op list"

record circuit =
  nbqbits :: nat
  ops :: "op list"
  var_dic :: "(string \<times> var_type) list"

definition Program :: program where
  "Program = \<lparr>qbit_count = 0, var_decls = [], op_list = []\<rparr>"

definition qalloc :: "nat \<Rightarrow> program \<Rightarrow> nat list \<times> program" where
  "qalloc n p =
     ([qbit_count p ..< qbit_count p + n], p\<lparr>qbit_count := qbit_count p + n\<rparr>)"

definition new_var :: "var_type \<Rightarrow> string \<Rightarrow> program \<Rightarrow> angle \<times> program" where
  "new_var ty name p = (Variable name, p\<lparr>var_decls := var_decls p @ [(name, ty)]\<rparr>)"

text \<open>\<^verbatim>\<open>G(q1, ..., qk)\<close>: the gate is appended to the program its qubits belong to.\<close>

definition apply_gate :: "gate \<Rightarrow> nat list \<Rightarrow> program \<Rightarrow> program" where
  "apply_gate g qs p = p\<lparr>op_list := op_list p @ [(g, qs)]\<rparr>"

definition to_circ :: "program \<Rightarrow> circuit" where
  "to_circ p = \<lparr>nbqbits = qbit_count p, ops = op_list p, var_dic = var_decls p\<rparr>"

text \<open>The free parameters of a circuit: the variables its gates depend on, each once.\<close>

fun gate_vars :: "gate \<Rightarrow> string list" where
  "gate_vars (RY (Variable v)) = [v]"
| "gate_vars (RX (Variable v)) = [v]"
| "gate_vars (RZ (Variable v)) = [v]"
| "gate_vars g = []"

definition get_variables :: "circuit \<Rightarrow> string list" where
  "get_variables c = remdups (concat (map (\<lambda>(g, qs). gate_vars g) (ops c)))"

section \<open>The product ansatz\<close>

text \<open>
  \<^verbatim>\<open>
  def construct_product_circ(nbqbits=4):
      prog = Program()
      reg = prog.qalloc(nbqbits)
      theta = [prog.new_var(float, '\\theta_%s'%i)
                   for i in range(nbqbits)]

      for ind in range(nbqbits):
          RY(theta[ind])(reg[ind])

      circ = prog.to_circ()
      return circ
  \<close>
  The name of the \<open>i\<close>-th variable is a backslash, \<^verbatim>\<open>theta_\<close> and the decimal digits
  of \<open>i\<close>. The comprehension declares the variables one after the other; the loop
  applies one rotation per index.
\<close>

definition theta_name :: "nat \<Rightarrow> string" where
  "theta_name i = CHR 0x5C # ''theta_'' @ str_nat i"

fun new_vars :: "nat list \<Rightarrow> program \<Rightarrow> angle list \<times> program" where
  "new_vars [] p = ([], p)"
| "new_vars (i # is) p =
     (let (v, p') = new_var Float_t (theta_name i) p;
          (vs, p'') = new_vars is p'
      in (v # vs, p''))"

fun ry_loop :: "angle list \<Rightarrow> nat list \<Rightarrow> nat list \<Rightarrow> program \<Rightarrow> error + program" where
  "ry_loop theta reg [] p = Inr p"
| "ry_loop theta reg (ind # inds) p =
     (case index_py theta ind of
        Inl e \<Rightarrow> Inl e
      | Inr t \<Rightarrow>
          (case index_py reg ind of
             Inl e \<Rightarrow> Inl e
           | Inr q \<Rightarrow> ry_loop theta reg inds (apply_gate (RY t) [q] p)))"

definition construct_product_circ :: "nat \<Rightarrow> error + circuit" where
  "construct_product_circ n =
     (let prog = Program;
          (reg, prog) = qalloc n prog
      in case range_py (PInt (int n)) of
           Inl e \<Rightarrow> Inl e
         | Inr is \<Rightarrow>
             (let (theta, prog) = new_vars is prog
              in case range_py (PInt (int n)) of
                   Inl e \<Rightarrow> Inl e
                 | Inr inds \<Rightarrow>
                     (case ry_loop theta reg inds prog of
                        Inl e \<Rightarrow> Inl e
                      | Inr prog \<Rightarrow> Inr (to_circ prog))))"

section \<open>The correlated ansatz, as shipped\<close>

text \<open>
  \<^verbatim>\<open>
  def construct_correlated_circ(nbqbits=4, n_layers=3):
      prog = Program()
      reg = prog.qalloc(nbqbits)
      n_parameters = ... # specify which total number of parameters
                         # your circuit will have

      theta = [prog.new_var(float, '\\theta_%s'%i)
                   for i in range(n_parameters)]

      # for instance, start with product circuit
      ind = 0
      for _ in range(nbqbits):
          RY(theta[ind])(reg[ind])
          ind += 1

      # build up entanglement
      for _ in range(n_layers):
          ...

      circ = prog.to_circ()
      return circ
  \<close>
  The body is written once, as a function of the value bound to \<^verbatim>\<open>n_parameters\<close>;
  the shipped cell binds the placeholder \<^verbatim>\<open>...\<close>. The first loop keeps its own
  counter \<^verbatim>\<open>ind\<close>; the body of the second loop is the expression \<^verbatim>\<open>...\<close>, which
  does nothing.
\<close>

fun ry_count_loop ::
  "angle list \<Rightarrow> nat list \<Rightarrow> nat list \<Rightarrow> nat \<Rightarrow> program \<Rightarrow> error + (nat \<times> program)" where
  "ry_count_loop theta reg [] ind p = Inr (ind, p)"
| "ry_count_loop theta reg (u # us) ind p =
     (case index_py theta ind of
        Inl e \<Rightarrow> Inl e
      | Inr t \<Rightarrow>
          (case index_py reg ind of
             Inl e \<Rightarrow> Inl e
           | Inr q \<Rightarrow> ry_count_loop theta reg us (ind + 1) (apply_gate (RY t) [q] p)))"

fun layers_loop :: "nat list \<Rightarrow> program \<Rightarrow> program" where
  "layers_loop [] p = p"
| "layers_loop (l # ls) p = layers_loop ls p"

definition correlated_circ_body :: "pyval \<Rightarrow> nat \<Rightarrow> nat \<Rightarrow> error + circuit" where
  "correlated_circ_body n_parameters n n_layers =
     (let prog = Program;
          (reg, prog) = qalloc n prog
      in case range_py n_parameters of
           Inl e \<Rightarrow> Inl e
         | Inr is \<Rightarrow>
             (let (theta, prog) = new_vars is prog
              in case range_py (PInt (int n)) of
                   Inl e \<Rightarrow> Inl e
                 | Inr us \<Rightarrow>
                     (case ry_count_loop theta reg us 0 prog of
                        Inl e \<Rightarrow> Inl e
                      | Inr (ind, prog) \<Rightarrow>
                          (case range_py (PInt (int n_layers)) of
                             Inl e \<Rightarrow> Inl e
                           | Inr ls \<Rightarrow> Inr (to_circ (layers_loop ls prog))))))"

definition construct_correlated_circ :: "nat \<Rightarrow> nat \<Rightarrow> error + circuit" where
  "construct_correlated_circ n n_layers = correlated_circ_body PEllipsis n n_layers"

section \<open>The imported modules\<close>

text \<open>
  The import cell binds names from three kinds of modules:
  \<^verbatim>\<open>
  import numpy as np
  from qat.fermion.hamiltonians import make_anderson_model, ElectronicStructureHamiltonian
  from qat.fermion.transforms import transform_to_jw_basis
  from qat.lang.AQASM import Program, RY
  from qat.plugins import ScipyMinimizePlugin, SeqOptim, MultipleLaunchesAnalyzer
  from qat.qpus import get_default_qpu
  \<close>
  and, in the last code cell,
  \<^verbatim>\<open>
  from qat.qpus import PyLinalg
  from depolarizing_plugin import DepolarizingPluginVec, make_matrix
  \<close>
  None of these modules is part of the notebook, so each is a parameter of the model:
  a record of the functions the notebook calls, over abstract types of Hamiltonians
  \<open>'h\<close>, matrices \<open>'m\<close>, observables \<open>'o\<close>, stack components \<open>'c\<close> (plugins and
  QPUs), results \<open>'r\<close> and eigenvector arrays \<open>'v\<close>. The package \<^verbatim>\<open>qat\<close>, the module
  \<^verbatim>\<open>numpy.linalg\<close> and the top-level module \<^verbatim>\<open>depolarizing_plugin\<close> are three
  different records, as they are three different import roots.
\<close>

text \<open>
  A job, as \<^verbatim>\<open>circ.to_job(observable=..., nbshots=...)\<close> creates it: it records the
  circuit, the observable and the number of shots; \<open>None\<close> when the call passes no
  \<^verbatim>\<open>nbshots\<close>.
\<close>

record 'o job_rec =
  job_circuit :: circuit
  observable :: 'o
  nbshots :: "int option"

definition to_job :: "circuit \<Rightarrow> 'o \<Rightarrow> int option \<Rightarrow> 'o job_rec" where
  "to_job c obs n = \<lparr>job_circuit = c, observable = obs, nbshots = n\<rparr>"

record ('h, 'm, 'o, 'c, 'r) qat =
  make_anderson_model :: "pyval \<Rightarrow> pyval \<Rightarrow> pyval \<Rightarrow> pyval \<Rightarrow> 'h"
  get_matrix :: "'h \<Rightarrow> 'm"
  transform_to_jw_basis :: "'h \<Rightarrow> 'o"
  load :: "string \<Rightarrow> 'o"
  ScipyMinimizePlugin :: "string \<Rightarrow> 'c"
  SeqOptim :: "int \<Rightarrow> 'c"
  MultipleLaunchesAnalyzer :: "int \<Rightarrow> 'c"
  get_default_qpu :: 'c
  PyLinalg :: 'c
  submit :: "'c list \<Rightarrow> 'o job_rec \<Rightarrow> 'r"

record ('m, 'v) numpy_linalg =
  eigh :: "'m \<Rightarrow> real list \<times> 'v"

record 'c depolarizing_plugin =
  DepolarizingPluginVec :: "pyval \<Rightarrow> pyval \<Rightarrow> 'c"

text \<open>
  A plugin or a QPU object is a stack of one component, and \<^verbatim>\<open>a | b\<close> puts the stack
  \<open>a\<close> in front of the stack \<open>b\<close>; the last component is the QPU that executes.
\<close>

definition pipe :: "'c list \<Rightarrow> 'c list \<Rightarrow> 'c list" where
  "pipe a b = a @ b"

section \<open>The global names of the notebook\<close>

text \<open>
  The code cells run top to bottom in one namespace. Each global name the cells bind is
  a field, \<open>None\<close> while unbound; reading an unbound name raises \<^verbatim>\<open>NameError\<close>. The
  name \<^verbatim>\<open>method\<close> of the notebook is the field \<open>opt_method\<close>. Statements that only
  print or plot bind nothing and are left out, and with them the name
  \<^verbatim>\<open>VQE_trace\<close>, which the plotting cell binds to an entry of the result's metadata
  and which no other cell reads. A call into an imported module is taken to return.
\<close>

datatype exn = NameError | Raised error

record ('h, 'm, 'v, 'o, 'c, 'r) globals =
  U :: "pyval option"
  mu :: "pyval option"
  V :: "pyval option"
  epsilon :: "pyval option"
  hamilt_0 :: "'h option"
  h_mat_0 :: "'m option"
  eigvals :: "real list option"
  eigvecs :: "'v option"
  E0_U0 :: "real option"
  h_spin_0 :: "'o option"
  circ :: "circuit option"
  opt_method :: "string option"
  scipy_optimizer :: "'c list option"
  qpu :: "'c list option"
  stack :: "'c list option"
  job :: "'o job_rec option"
  res :: "'r option"
  multiplier :: "'c list option"
  multiple_launches_stack :: "'c list option"
  h_spin_0_rotated :: "'o option"
  job_with_shot_noise :: "'o job_rec option"
  scipy_optimizer_stack :: "'c list option"
  scipy_res :: "'r option"
  seq_optim :: "'c list option"
  seq_optimizer_stack :: "'c list option"
  hamilt_1 :: "'h option"
  h_mat_1 :: "'m option"
  E0_U1 :: "real option"
  h_spin_1 :: "'o option"
  depol_plugin :: "'c list option"
  depol_qpu :: "'c list option"
  depol_scipy_optimizer_stack :: "'c list option"

definition empty_globals :: "('h, 'm, 'v, 'o, 'c, 'r) globals" where
  "empty_globals =
     \<lparr>U = None, mu = None, V = None, epsilon = None, hamilt_0 = None, h_mat_0 = None,
      eigvals = None, eigvecs = None, E0_U0 = None, h_spin_0 = None, circ = None,
      opt_method = None, scipy_optimizer = None, qpu = None, stack = None, job = None,
      res = None, multiplier = None, multiple_launches_stack = None,
      h_spin_0_rotated = None, job_with_shot_noise = None, scipy_optimizer_stack = None,
      scipy_res = None, seq_optim = None, seq_optimizer_stack = None, hamilt_1 = None,
      h_mat_1 = None, E0_U1 = None, h_spin_1 = None, depol_plugin = None,
      depol_qpu = None, depol_scipy_optimizer_stack = None\<rparr>"

definition lookup :: "'a option \<Rightarrow> exn + 'a" where
  "lookup x = (case x of None \<Rightarrow> Inl NameError | Some v \<Rightarrow> Inr v)"

definition raising :: "error + 'a \<Rightarrow> exn + 'a" where
  "raising r = (case r of Inl e \<Rightarrow> Inl (Raised e) | Inr v \<Rightarrow> Inr v)"

definition and_then :: "exn + 'a \<Rightarrow> ('a \<Rightarrow> exn + 'b) \<Rightarrow> exn + 'b" where
  "and_then r f = (case r of Inl e \<Rightarrow> Inl e | Inr v \<Rightarrow> f v)"

text \<open>
  \<^verbatim>\<open>x / y\<close> on numbers is true division and gives a float. The quotient is taken in
  the reals; the notebook divides \<open>0\<close> and \<open>1\<close> by \<open>2\<close> only, and both quotients are
  exact as floats.
\<close>

fun num_of :: "pyval \<Rightarrow> real option" where
  "num_of (PInt n) = Some (real_of_int n)"
| "num_of (PFloat x) = Some x"
| "num_of (PList xs) = None"
| "num_of PEllipsis = None"

definition truediv :: "pyval \<Rightarrow> pyval \<Rightarrow> error + pyval" where
  "truediv x y =
     (case (num_of x, num_of y) of
        (Some a, Some b) \<Rightarrow> if b = 0 then Inl ZeroDivisionError else Inr (PFloat (a / b))
      | _ \<Rightarrow> Inl TypeError)"

section \<open>The code cells\<close>

text \<open>
  \<^verbatim>\<open>
  U = 0
  mu = U/2 # half-filling
  V = [1]
  epsilon = [2]

  hamilt_0 = make_anderson_model(U, mu, V, epsilon)
  h_mat_0 = hamilt_0.get_matrix()
  eigvals, eigvecs = np.linalg.eigh(h_mat_0)
  E0_U0 = eigvals[0]
  \<close>
\<close>

definition cell_siam_U0 ::
  "('h, 'm, 'o, 'c, 'r) qat \<Rightarrow> ('m, 'v) numpy_linalg \<Rightarrow>
   ('h, 'm, 'v, 'o, 'c, 'r) globals \<Rightarrow> exn + ('h, 'm, 'v, 'o, 'c, 'r) globals" where
  "cell_siam_U0 L N g =
     (let g = g\<lparr>U := Some (PInt 0)\<rparr> in
      and_then (lookup (U g)) (\<lambda>u.
      and_then (raising (truediv u (PInt 2))) (\<lambda>m.
      let g = g\<lparr>mu := Some m\<rparr>;
          g = g\<lparr>V := Some (PList [PInt 1])\<rparr>;
          g = g\<lparr>epsilon := Some (PList [PInt 2])\<rparr>
      in
      and_then (lookup (U g)) (\<lambda>u.
      and_then (lookup (mu g)) (\<lambda>m.
      and_then (lookup (V g)) (\<lambda>v.
      and_then (lookup (epsilon g)) (\<lambda>eps.
      let g = g\<lparr>hamilt_0 := Some (make_anderson_model L u m v eps)\<rparr> in
      and_then (lookup (hamilt_0 g)) (\<lambda>h.
      let g = g\<lparr>h_mat_0 := Some (get_matrix L h)\<rparr> in
      and_then (lookup (h_mat_0 g)) (\<lambda>hm.
      let (vals, vecs) = eigh N hm;
          g = g\<lparr>eigvals := Some vals, eigvecs := Some vecs\<rparr>
      in
      and_then (lookup (eigvals g)) (\<lambda>vals.
      and_then (raising (index_py vals 0)) (\<lambda>e0.
      Inr (g\<lparr>E0_U0 := Some e0\<rparr>))))))))))))"

text \<open>\<^verbatim>\<open>h_spin_0 = transform_to_jw_basis(hamilt_0)\<close>\<close>

definition cell_jw ::
  "('h, 'm, 'o, 'c, 'r) qat \<Rightarrow>
   ('h, 'm, 'v, 'o, 'c, 'r) globals \<Rightarrow> exn + ('h, 'm, 'v, 'o, 'c, 'r) globals" where
  "cell_jw L g =
     and_then (lookup (hamilt_0 g)) (\<lambda>h.
     Inr (g\<lparr>h_spin_0 := Some (transform_to_jw_basis L h)\<rparr>))"

text \<open>
  \<^verbatim>\<open>circ = construct_product_circ()\<close>, after the definition of the function: the
  default argument is \<open>nbqbits = 4\<close>.
\<close>

definition cell_product_circ ::
  "('h, 'm, 'v, 'o, 'c, 'r) globals \<Rightarrow> exn + ('h, 'm, 'v, 'o, 'c, 'r) globals" where
  "cell_product_circ g =
     and_then (raising (construct_product_circ 4)) (\<lambda>c.
     Inr (g\<lparr>circ := Some c\<rparr>))"

text \<open>
  \<^verbatim>\<open>
  method = 'BFGS' # try different ones!
  scipy_optimizer =  ScipyMinimizePlugin(method=method) # supposes random initialization
  qpu = get_default_qpu() # default noise-free emulator
  stack = scipy_optimizer | qpu # note the structure

  job = circ.to_job(observable=h_spin_0)
  \<close>
\<close>

definition cell_optimizer ::
  "('h, 'm, 'o, 'c, 'r) qat \<Rightarrow>
   ('h, 'm, 'v, 'o, 'c, 'r) globals \<Rightarrow> exn + ('h, 'm, 'v, 'o, 'c, 'r) globals" where
  "cell_optimizer L g =
     (let g = g\<lparr>opt_method := Some ''BFGS''\<rparr> in
      and_then (lookup (opt_method g)) (\<lambda>m.
      let g = g\<lparr>scipy_optimizer := Some [ScipyMinimizePlugin L m]\<rparr>;
          g = g\<lparr>qpu := Some [get_default_qpu L]\<rparr>
      in
      and_then (lookup (scipy_optimizer g)) (\<lambda>so.
      and_then (lookup (qpu g)) (\<lambda>q.
      let g = g\<lparr>stack := Some (pipe so q)\<rparr> in
      and_then (lookup (circ g)) (\<lambda>c.
      and_then (lookup (h_spin_0 g)) (\<lambda>h.
      Inr (g\<lparr>job := Some (to_job c h None)\<rparr>)))))))"

text \<open>\<^verbatim>\<open>res = stack.submit(job)\<close>\<close>

definition cell_submit ::
  "('h, 'm, 'o, 'c, 'r) qat \<Rightarrow>
   ('h, 'm, 'v, 'o, 'c, 'r) globals \<Rightarrow> exn + ('h, 'm, 'v, 'o, 'c, 'r) globals" where
  "cell_submit L g =
     and_then (lookup (stack g)) (\<lambda>st.
     and_then (lookup (job g)) (\<lambda>j.
     Inr (g\<lparr>res := Some (submit L st j)\<rparr>)))"

text \<open>
  \<^verbatim>\<open>
  multiplier = MultipleLaunchesAnalyzer(n_runs=10)
  multiple_launches_stack = multiplier | stack

  res = multiple_launches_stack.submit(job)
  \<close>
\<close>

definition cell_multiple_launches ::
  "('h, 'm, 'o, 'c, 'r) qat \<Rightarrow>
   ('h, 'm, 'v, 'o, 'c, 'r) globals \<Rightarrow> exn + ('h, 'm, 'v, 'o, 'c, 'r) globals" where
  "cell_multiple_launches L g =
     (let g = g\<lparr>multiplier := Some [MultipleLaunchesAnalyzer L 10]\<rparr> in
      and_then (lookup (multiplier g)) (\<lambda>ml.
      and_then (lookup (stack g)) (\<lambda>st.
      let g = g\<lparr>multiple_launches_stack := Some (pipe ml st)\<rparr> in
      and_then (lookup (multiple_launches_stack g)) (\<lambda>mls.
      and_then (lookup (job g)) (\<lambda>j.
      Inr (g\<lparr>res := Some (submit L mls j)\<rparr>))))))"

text \<open>
  \<^verbatim>\<open>
  h_spin_0_rotated = ElectronicStructureHamiltonian.load('h_spin_0_rotated')
  job_with_shot_noise = circ.to_job(observable=h_spin_0_rotated, nbshots=1000)

  scipy_optimizer =  ScipyMinimizePlugin(method='COBYLA') # supposes random initialization
  scipy_optimizer_stack = scipy_optimizer | qpu

  scipy_res = scipy_optimizer_stack .submit(job_with_shot_noise)
  \<close>
\<close>

definition cell_shot_noise ::
  "('h, 'm, 'o, 'c, 'r) qat \<Rightarrow>
   ('h, 'm, 'v, 'o, 'c, 'r) globals \<Rightarrow> exn + ('h, 'm, 'v, 'o, 'c, 'r) globals" where
  "cell_shot_noise L g =
     (let g = g\<lparr>h_spin_0_rotated := Some (load L ''h_spin_0_rotated'')\<rparr> in
      and_then (lookup (circ g)) (\<lambda>c.
      and_then (lookup (h_spin_0_rotated g)) (\<lambda>hr.
      let g = g\<lparr>job_with_shot_noise := Some (to_job c hr (Some 1000))\<rparr>;
          g = g\<lparr>scipy_optimizer := Some [ScipyMinimizePlugin L ''COBYLA'']\<rparr>
      in
      and_then (lookup (scipy_optimizer g)) (\<lambda>so.
      and_then (lookup (qpu g)) (\<lambda>q.
      let g = g\<lparr>scipy_optimizer_stack := Some (pipe so q)\<rparr> in
      and_then (lookup (scipy_optimizer_stack g)) (\<lambda>st.
      and_then (lookup (job_with_shot_noise g)) (\<lambda>j.
      Inr (g\<lparr>scipy_res := Some (submit L st j)\<rparr>))))))))"

text \<open>
  \<^verbatim>\<open>
  seq_optim = SeqOptim(ncycles=10)
  seq_optimizer_stack = seq_optim | qpu
  \<close>
\<close>

definition cell_seq_optim ::
  "('h, 'm, 'o, 'c, 'r) qat \<Rightarrow>
   ('h, 'm, 'v, 'o, 'c, 'r) globals \<Rightarrow> exn + ('h, 'm, 'v, 'o, 'c, 'r) globals" where
  "cell_seq_optim L g =
     (let g = g\<lparr>seq_optim := Some [SeqOptim L 10]\<rparr> in
      and_then (lookup (seq_optim g)) (\<lambda>so.
      and_then (lookup (qpu g)) (\<lambda>q.
      Inr (g\<lparr>seq_optimizer_stack := Some (pipe so q)\<rparr>))))"

text \<open>
  \<^verbatim>\<open>
  U = 1
  mu = U/2
  hamilt_1 = make_anderson_model(U, mu, V, epsilon)
  h_mat_1 = hamilt_1.get_matrix()
  eigvals, eigvecs = np.linalg.eigh(h_mat_1)
  E0_U1 = eigvals[0]

  h_spin_1 = transform_to_jw_basis(hamilt_1)
  \<close>
\<close>

definition cell_siam_U1 ::
  "('h, 'm, 'o, 'c, 'r) qat \<Rightarrow> ('m, 'v) numpy_linalg \<Rightarrow>
   ('h, 'm, 'v, 'o, 'c, 'r) globals \<Rightarrow> exn + ('h, 'm, 'v, 'o, 'c, 'r) globals" where
  "cell_siam_U1 L N g =
     (let g = g\<lparr>U := Some (PInt 1)\<rparr> in
      and_then (lookup (U g)) (\<lambda>u.
      and_then (raising (truediv u (PInt 2))) (\<lambda>m.
      let g = g\<lparr>mu := Some m\<rparr> in
      and_then (lookup (U g)) (\<lambda>u.
      and_then (lookup (mu g)) (\<lambda>m.
      and_then (lookup (V g)) (\<lambda>v.
      and_then (lookup (epsilon g)) (\<lambda>eps.
      let g = g\<lparr>hamilt_1 := Some (make_anderson_model L u m v eps)\<rparr> in
      and_then (lookup (hamilt_1 g)) (\<lambda>h.
      let g = g\<lparr>h_mat_1 := Some (get_matrix L h)\<rparr> in
      and_then (lookup (h_mat_1 g)) (\<lambda>hm.
      let (vals, vecs) = eigh N hm;
          g = g\<lparr>eigvals := Some vals, eigvecs := Some vecs\<rparr>
      in
      and_then (lookup (eigvals g)) (\<lambda>vals.
      and_then (raising (index_py vals 0)) (\<lambda>e0.
      let g = g\<lparr>E0_U1 := Some e0\<rparr> in
      and_then (lookup (hamilt_1 g)) (\<lambda>h.
      Inr (g\<lparr>h_spin_1 := Some (transform_to_jw_basis L h)\<rparr>)))))))))))))"

text \<open>
  The cell that defines \<^verbatim>\<open>construct_correlated_circ\<close> binds the function and calls
  nothing; the cells with comments only bind nothing. The last code cell:
  \<^verbatim>\<open>
  qpu = PyLinalg()
  depol_plugin = DepolarizingPluginVec(prob_1qb=0.001, prob_2qb=0.01)

  depol_qpu = depol_plugin | qpu
  depol_scipy_optimizer_stack = scipy_optimizer | depol_plugin | qpu
  \<close>
  The two keyword arguments are passed in the order \<^verbatim>\<open>prob_1qb\<close>, \<^verbatim>\<open>prob_2qb\<close>.
\<close>

definition cell_depolarizing ::
  "('h, 'm, 'o, 'c, 'r) qat \<Rightarrow> 'c depolarizing_plugin \<Rightarrow>
   ('h, 'm, 'v, 'o, 'c, 'r) globals \<Rightarrow> exn + ('h, 'm, 'v, 'o, 'c, 'r) globals" where
  "cell_depolarizing L D g =
     (let g = g\<lparr>qpu := Some [PyLinalg L]\<rparr>;
          g = g\<lparr>depol_plugin :=
                  Some [DepolarizingPluginVec D (PFloat (1 / 1000)) (PFloat (1 / 100))]\<rparr>
      in
      and_then (lookup (depol_plugin g)) (\<lambda>dp.
      and_then (lookup (qpu g)) (\<lambda>q.
      let g = g\<lparr>depol_qpu := Some (pipe dp q)\<rparr> in
      and_then (lookup (scipy_optimizer g)) (\<lambda>so.
      and_then (lookup (depol_plugin g)) (\<lambda>dp.
      and_then (lookup (qpu g)) (\<lambda>q.
      Inr (g\<lparr>depol_scipy_optimizer_stack := Some (pipe (pipe so dp) q)\<rparr>)))))))"

text \<open>The notebook: its code cells, in order, run from the empty namespace.\<close>

fun run_cells :: "('g \<Rightarrow> exn + 'g) list \<Rightarrow> 'g \<Rightarrow> exn + 'g" where
  "run_cells [] g = Inr g"
| "run_cells (c # cs) g = and_then (c g) (run_cells cs)"

definition notebook_cells ::
  "('h, 'm, 'o, 'c, 'r) qat \<Rightarrow> ('m, 'v) numpy_linalg \<Rightarrow> 'c depolarizing_plugin \<Rightarrow>
   (('h, 'm, 'v, 'o, 'c, 'r) globals \<Rightarrow> exn + ('h, 'm, 'v, 'o, 'c, 'r) globals) list" where
  "notebook_cells L N D =
     [cell_siam_U0 L N, cell_jw L, cell_product_circ, cell_optimizer L, cell_submit L,
      cell_multiple_launches L, cell_shot_noise L, cell_seq_optim L, cell_siam_U1 L N,
      cell_depolarizing L D]"

definition run_upto ::
  "nat \<Rightarrow> ('h, 'm, 'o, 'c, 'r) qat \<Rightarrow> ('m, 'v) numpy_linalg \<Rightarrow> 'c depolarizing_plugin \<Rightarrow>
   exn + ('h, 'm, 'v, 'o, 'c, 'r) globals" where
  "run_upto k L N D = run_cells (take k (notebook_cells L N D)) empty_globals"

definition run_notebook ::
  "('h, 'm, 'o, 'c, 'r) qat \<Rightarrow> ('m, 'v) numpy_linalg \<Rightarrow> 'c depolarizing_plugin \<Rightarrow>
   exn + ('h, 'm, 'v, 'o, 'c, 'r) globals" where
  "run_notebook L N D = run_cells (notebook_cells L N D) empty_globals"

text \<open>
  The notebook states, above the first code cell, that one bath site gives four
  fermionic modes "due to spin degeneracy, and thus, 4 qubits": two spin orbitals for the
  impurity and two for each bath site.
\<close>

fun len_py :: "pyval \<Rightarrow> nat option" where
  "len_py (PList xs) = Some (length xs)"
| "len_py v = None"

definition siam_modes :: "nat \<Rightarrow> nat" where
  "siam_modes n_bath = 2 * (1 + n_bath)"

text \<open>
  Half filling, as the comment on \<^verbatim>\<open>mu = U/2\<close> calls it: both names are bound, and
  the chemical potential is the quotient of the interaction strength by two.
\<close>

definition half_filling :: "('h, 'm, 'v, 'o, 'c, 'r) globals \<Rightarrow> bool" where
  "half_filling g =
     (case (U g, mu g) of
        (Some u, Some m) \<Rightarrow> truediv u (PInt 2) = Inr m
      | _ \<Rightarrow> False)"

section \<open>The import statements\<close>



















section \<open>Stand-in modules\<close>

text \<open>
  Small concrete instances of the three module records, on which the cells can be
  evaluated: a Hamiltonian is the list of the four arguments it was made from, a stack
  component is its name, a result is the depth of the stack that produced it, and the
  eigenvalue arrays are fixed ascending lists.
\<close>

definition stub_qat :: "(pyval list, pyval list, string \<times> pyval list, string, nat) qat" where
  "stub_qat =
     \<lparr>make_anderson_model = (\<lambda>u m v e. [u, m, v, e]),
      get_matrix = (\<lambda>h. h),
      transform_to_jw_basis = (\<lambda>h. (''jw'', h)),
      load = (\<lambda>s. (s, [])),
      ScipyMinimizePlugin = (\<lambda>m. ''ScipyMinimizePlugin '' @ m),
      SeqOptim = (\<lambda>n. ''SeqOptim''),
      MultipleLaunchesAnalyzer = (\<lambda>n. ''MultipleLaunchesAnalyzer''),
      get_default_qpu = ''default qpu'',
      PyLinalg = ''PyLinalg'',
      submit = (\<lambda>st j. length st)\<rparr>"

definition stub_numpy :: "(pyval list, unit) numpy_linalg" where
  "stub_numpy = \<lparr>eigh = (\<lambda>m. (if hd m = PInt 0 then [- 1, 0, 2] else [- 2, 1, 3], ()))\<rparr>"

definition stub_depolarizing :: "string depolarizing_plugin" where
  "stub_depolarizing = \<lparr>DepolarizingPluginVec = (\<lambda>p q. ''depolarizing channel'')\<rparr>"



section \<open>Decimal names are distinct\<close>

lemma digit_val_digit_char: "d < 10 \<Longrightarrow> digit_val (digit_char d) = d"
  by (simp add: digit_val_def digit_char_def)

lemma nat_of_str_snoc: "nat_of_str (s @ [c]) = 10 * nat_of_str s + digit_val c"
  by (simp add: nat_of_str_def)

lemma nat_of_str_str_nat: "nat_of_str (str_nat n) = n"
proof (induction n rule: str_nat.induct)
  case (1 n)
  show ?case
  proof (cases "n < 10")
    case True
    then show ?thesis
      by (subst str_nat.simps) (simp add: nat_of_str_def digit_val_digit_char)
  next
    case False
    then have "nat_of_str (str_nat n) =
        10 * nat_of_str (str_nat (n div 10)) + digit_val (digit_char (n mod 10))"
      by (subst str_nat.simps) (simp add: nat_of_str_snoc)
    also have "\<dots> = 10 * (n div 10) + n mod 10"
      using 1 False by (simp add: digit_val_digit_char)
    finally show ?thesis by simp
  qed
qed

lemma str_nat_inj: "str_nat m = str_nat n \<Longrightarrow> m = n"
  by (metis nat_of_str_str_nat)

lemma theta_name_inj: "inj theta_name"
  by (rule injI) (simp add: theta_name_def str_nat_inj)

lemma distinct_theta_names: "distinct (map theta_name [0..<n])"
  by (simp add: distinct_map theta_name_inj inj_on_def str_nat_inj theta_name_def)

section \<open>The product ansatz returns one rotation per qubit\<close>

lemma new_vars_eq:
  "new_vars is p =
     (map (\<lambda>i. Variable (theta_name i)) is,
      p\<lparr>var_decls := var_decls p @ map (\<lambda>i. (theta_name i, Float_t)) is\<rparr>)"
  by (induction "is" arbitrary: p) (simp_all add: new_var_def)

lemma ry_loop_eq:
  "(\<And>i. i \<in> set inds \<Longrightarrow> i < length theta \<and> i < length reg) \<Longrightarrow>
   ry_loop theta reg inds p =
     Inr (p\<lparr>op_list := op_list p @ map (\<lambda>i. (RY (theta ! i), [reg ! i])) inds\<rparr>)"
  by (induction inds arbitrary: p) (simp_all add: index_py_def apply_gate_def)

lemma ry_loop_product:
  "ry_loop (map (\<lambda>i. Variable (theta_name i)) [0..<n]) [0..<n] [0..<n] p =
     Inr (p\<lparr>op_list := op_list p @ map (\<lambda>i. (RY (Variable (theta_name i)), [i])) [0..<n]\<rparr>)"
proof -
  have "ry_loop (map (\<lambda>i. Variable (theta_name i)) [0..<n]) [0..<n] [0..<n] p =
     Inr (p\<lparr>op_list := op_list p @
        map (\<lambda>i. (RY (map (\<lambda>i. Variable (theta_name i)) [0..<n] ! i), [[0..<n] ! i]))
          [0..<n]\<rparr>)"
    by (rule ry_loop_eq) simp
  moreover have
    "map (\<lambda>i. (RY (map (\<lambda>i. Variable (theta_name i)) [0..<n] ! i), [[0..<n] ! i])) [0..<n]
      = map (\<lambda>i. (RY (Variable (theta_name i)), [i])) [0..<n]"
    by (rule map_cong) simp_all
  ultimately show ?thesis by simp
qed

lemma construct_product_circ_eq:
  "construct_product_circ n =
     Inr \<lparr>nbqbits = n,
          ops = map (\<lambda>i. (RY (Variable (theta_name i)), [i])) [0..<n],
          var_dic = map (\<lambda>i. (theta_name i, Float_t)) [0..<n]\<rparr>"
  by (simp add: construct_product_circ_def Program_def qalloc_def new_vars_eq
      ry_loop_product to_circ_def)

lemma product_ops_variables:
  "concat (map (\<lambda>(g, qs). gate_vars g) (map (\<lambda>i. (RY (Variable (theta_name i)), [i])) is))
     = map theta_name is"
  by (induction "is") simp_all

text \<open>
  Claim C7. For every qubit count \<open>n \<ge> 0\<close>, \<^verbatim>\<open>construct_product_circ(n)\<close> returns (it
  does not raise) a circuit on exactly \<open>n\<close> qubits whose gates are exactly the \<open>n\<close>
  rotations \<open>RY(theta_i)\<close> on qubit \<open>i\<close>, for \<open>i = 0, ..., n - 1\<close>, in this order. Its
  free parameters are the \<open>n\<close> pairwise different variables \<open>theta_0, ..., theta_(n-1)\<close>,
  and no gate acts on more than one qubit. The result is a function of \<open>n\<close> alone.
\<close>

theorem construct_product_circ_spec:
  "\<exists>c. construct_product_circ n = Inr c
     \<and> nbqbits c = n
     \<and> ops c = map (\<lambda>i. (RY (Variable (theta_name i)), [i])) [0..<n]
     \<and> length (ops c) = n
     \<and> get_variables c = map theta_name [0..<n]
     \<and> distinct (get_variables c)
     \<and> length (get_variables c) = n
     \<and> map fst (var_dic c) = map theta_name [0..<n]
     \<and> filter (\<lambda>(g, qs). length qs \<noteq> 1) (ops c) = []"
proof -
  let ?c = "\<lparr>nbqbits = n,
          ops = map (\<lambda>i. (RY (Variable (theta_name i)), [i])) [0..<n],
          var_dic = map (\<lambda>i. (theta_name i, Float_t)) [0..<n]\<rparr>"
  have vars: "get_variables ?c = map theta_name [0..<n]"
    by (simp add: get_variables_def product_ops_variables distinct_theta_names del: map_map)
  have single: "filter (\<lambda>(g, qs). length qs \<noteq> 1) (ops ?c) = []"
    by (simp add: filter_empty_conv)
  show ?thesis
    using construct_product_circ_eq [of n] vars single distinct_theta_names [of n]
    by (simp add: comp_def)
qed

section \<open>The correlated ansatz raises as shipped\<close>

lemma layers_loop_id: "layers_loop ls p = p"
  by (induction ls) simp_all

lemma ry_count_loop_eq:
  "ind + length us \<le> length theta \<Longrightarrow> ind + length us \<le> length reg \<Longrightarrow>
   ry_count_loop theta reg us ind p =
     Inr (ind + length us,
          p\<lparr>op_list := op_list p @
               map (\<lambda>i. (RY (theta ! i), [reg ! i])) [ind..<ind + length us]\<rparr>)"
proof (induction us arbitrary: ind p)
  case Nil
  then show ?case by simp
next
  case (Cons u us)
  have "ind < ind + length (u # us)"
    by simp
  then have "[ind..<ind + length (u # us)] = ind # [Suc ind..<Suc ind + length us]"
    by (simp only: upt_conv_Cons) simp
  with Cons show ?case
    by (simp add: index_py_def apply_gate_def)
qed

text \<open>
  The placeholder is the only obstacle: once \<^verbatim>\<open>n_parameters\<close> is an integer that
  covers the qubits, the same body returns a circuit.
\<close>

lemma correlated_circ_body_completed:
  assumes "n \<le> nat k"
  shows "\<exists>c. correlated_circ_body (PInt k) n n_layers = Inr c
           \<and> nbqbits c = n \<and> length (ops c) = n"
proof -
  have "ry_count_loop (map (\<lambda>i. Variable (theta_name i)) [0..<nat k]) [0..<n] [0..<n] 0 p =
     Inr (n, p\<lparr>op_list := op_list p @
        map (\<lambda>i. (RY (map (\<lambda>i. Variable (theta_name i)) [0..<nat k] ! i), [[0..<n] ! i]))
          [0..<n]\<rparr>)" for p
    using assms
      ry_count_loop_eq [of 0 "[0..<n]" "map (\<lambda>i. Variable (theta_name i)) [0..<nat k]"
        "[0..<n]" p]
    by simp
  then show ?thesis
    by (simp add: correlated_circ_body_def Program_def qalloc_def new_vars_eq to_circ_def
        layers_loop_id)
qed

text \<open>
  Claim C3. As shipped, \<^verbatim>\<open>construct_correlated_circ\<close> raises for every choice of
  \<^verbatim>\<open>nbqbits\<close> and \<^verbatim>\<open>n_layers\<close> and returns no circuit: \<^verbatim>\<open>n_parameters\<close> is the
  placeholder \<^verbatim>\<open>...\<close>, and \<^verbatim>\<open>range\<close> of it, from which the parameter list would be
  built, raises \<^verbatim>\<open>TypeError\<close>.
\<close>

theorem construct_correlated_circ_raises:
  "construct_correlated_circ n n_layers = Inl TypeError \<and> range_py PEllipsis = Inl TypeError"
  by (simp add: construct_correlated_circ_def correlated_circ_body_def Program_def qalloc_def)

section \<open>Running the cells\<close>

lemmas cell_defs = cell_jw_def cell_product_circ_def cell_optimizer_def cell_submit_def
  cell_multiple_launches_def cell_shot_noise_def cell_seq_optim_def cell_depolarizing_def
  and_then_def lookup_def raising_def pipe_def Let_def

lemma cell_siam_U0_eq:
  assumes "fst (eigh N (get_matrix L (make_anderson_model L (PInt 0) (PFloat 0)
             (PList [PInt 1]) (PList [PInt 2])))) = e # es"
  shows "cell_siam_U0 L N g =
     Inr (g\<lparr>U := Some (PInt 0), mu := Some (PFloat 0), V := Some (PList [PInt 1]),
            epsilon := Some (PList [PInt 2]),
            hamilt_0 := Some (make_anderson_model L (PInt 0) (PFloat 0)
             (PList [PInt 1]) (PList [PInt 2])),
            h_mat_0 := Some (get_matrix L (make_anderson_model L (PInt 0) (PFloat 0)
             (PList [PInt 1]) (PList [PInt 2]))),
            eigvals := Some (e # es),
            eigvecs := Some (snd (eigh N (get_matrix L (make_anderson_model L (PInt 0) (PFloat 0)
             (PList [PInt 1]) (PList [PInt 2]))))),
            E0_U0 := Some e\<rparr>)"
  using assms
  by (simp add: cell_siam_U0_def and_then_def lookup_def raising_def truediv_def index_py_def
      Let_def case_prod_beta)

lemma cell_siam_U1_eq:
  assumes "V g = Some v" "epsilon g = Some eps"
    and "fst (eigh N (get_matrix L (make_anderson_model L (PInt 1) (PFloat (1 / 2)) v eps)))
           = e # es"
  shows "cell_siam_U1 L N g =
     Inr (g\<lparr>U := Some (PInt 1), mu := Some (PFloat (1 / 2)),
            hamilt_1 := Some (make_anderson_model L (PInt 1) (PFloat (1 / 2)) v eps),
            h_mat_1 := Some (get_matrix L (make_anderson_model L (PInt 1) (PFloat (1 / 2)) v eps)),
            eigvals := Some (e # es),
            eigvecs := Some (snd (eigh N (get_matrix L
                         (make_anderson_model L (PInt 1) (PFloat (1 / 2)) v eps)))),
            E0_U1 := Some e,
            h_spin_1 := Some (transform_to_jw_basis L
                         (make_anderson_model L (PInt 1) (PFloat (1 / 2)) v eps))\<rparr>)"
  using assms
  by (simp add: cell_siam_U1_def and_then_def lookup_def raising_def truediv_def index_py_def
      Let_def case_prod_beta)

lemma sorted_hd_Min: "sorted xs \<Longrightarrow> xs \<noteq> [] \<Longrightarrow> hd xs = Min (set xs)"
  by (cases xs) (auto intro!: Min_eqI [symmetric])

lemma stub_qat_simps:
  "make_anderson_model stub_qat u m v e = [u, m, v, e]"
  "get_matrix stub_qat h = h"
  "transform_to_jw_basis stub_qat h = (''jw'', h)"
  "load stub_qat s = (s, [])"
  "ScipyMinimizePlugin stub_qat opt = ''ScipyMinimizePlugin '' @ opt"
  "SeqOptim stub_qat k = ''SeqOptim''"
  "MultipleLaunchesAnalyzer stub_qat k = ''MultipleLaunchesAnalyzer''"
  "get_default_qpu stub_qat = ''default qpu''"
  "PyLinalg stub_qat = ''PyLinalg''"
  "submit stub_qat st j = length st"
  by (simp_all add: stub_qat_def)

lemma stub_numpy_simps:
  "eigh stub_numpy m = (if hd m = PInt 0 then [- 1, 0, 2] else [- 2, 1, 3], ())"
  by (simp add: stub_numpy_def)

lemma stub_eigvals_U0:
  "fst (eigh stub_numpy (get_matrix stub_qat (make_anderson_model stub_qat (PInt 0) (PFloat 0)
             (PList [PInt 1]) (PList [PInt 2])))) = [- 1, 0, 2]"
  by (simp add: stub_qat_simps stub_numpy_simps)

lemma stub_eigvals_U1:
  "fst (eigh stub_numpy (get_matrix stub_qat (make_anderson_model stub_qat (PInt 1) (PFloat (1 / 2))
             (PList [PInt 1]) (PList [PInt 2])))) = [- 2, 1, 3]"
  by (simp add: stub_qat_simps stub_numpy_simps)

section \<open>The Hamiltonians and their reference energies\<close>

text \<open>
  The library contract the cells rely on is stated as a premise where it is needed:
  \<^verbatim>\<open>np.linalg.eigh\<close> returns at least one eigenvalue for each of the two matrices
  (otherwise \<^verbatim>\<open>eigvals[0]\<close> raises), and returns them in ascending order.
\<close>

text \<open>
  Claim C4. Every construction of the SIAM Hamiltonian in the notebook, that of
  \<^verbatim>\<open>hamilt_0\<close> in the first code cell and that of \<^verbatim>\<open>hamilt_1\<close> in the \<open>U = 1\<close> cell,
  is the call of \<^verbatim>\<open>make_anderson_model\<close> on exactly the four values bound to
  \<^verbatim>\<open>U\<close>, \<^verbatim>\<open>mu\<close>, \<^verbatim>\<open>V\<close> and \<^verbatim>\<open>epsilon\<close> at that point, in this order; \<^verbatim>\<open>V\<close> and
  \<^verbatim>\<open>epsilon\<close> are lists of one element (one bath site), and the ansatz circuit has the
  four qubits of the four fermionic modes.
\<close>

theorem anderson_model_constructions:
  fixes L :: "('h, 'm, 'o, 'c, 'r) qat" and N :: "('m, 'v) numpy_linalg"
    and D :: "'c depolarizing_plugin"
  assumes "fst (eigh N (get_matrix L (make_anderson_model L (PInt 0) (PFloat 0)
             (PList [PInt 1]) (PList [PInt 2])))) \<noteq> []"
    and "fst (eigh N (get_matrix L (make_anderson_model L (PInt 1) (PFloat (1 / 2))
             (PList [PInt 1]) (PList [PInt 2])))) \<noteq> []"
  shows "\<exists>g1 g9 u0 m0 u1 m1 v e c.
      run_upto 1 L N D = Inr g1 \<and> run_upto 9 L N D = Inr g9
    \<and> U g1 = Some u0 \<and> mu g1 = Some m0 \<and> V g1 = Some v \<and> epsilon g1 = Some e
    \<and> hamilt_0 g1 = Some (make_anderson_model L u0 m0 v e)
    \<and> U g9 = Some u1 \<and> mu g9 = Some m1 \<and> V g9 = Some v \<and> epsilon g9 = Some e
    \<and> hamilt_1 g9 = Some (make_anderson_model L u1 m1 v e)
    \<and> hamilt_0 g9 = hamilt_0 g1
    \<and> u0 = PInt 0 \<and> m0 = PFloat 0 \<and> u1 = PInt 1 \<and> m1 = PFloat (1 / 2)
    \<and> v = PList [PInt 1] \<and> e = PList [PInt 2]
    \<and> len_py v = Some 1 \<and> len_py e = Some 1
    \<and> circ g9 = Some c \<and> nbqbits c = siam_modes 1 \<and> siam_modes 1 = 4"
proof -
  obtain a as where e0: "fst (eigh N (get_matrix L (make_anderson_model L (PInt 0) (PFloat 0)
             (PList [PInt 1]) (PList [PInt 2])))) = a # as"
    using assms(1) by (auto simp: neq_Nil_conv)
  obtain b bs where e1: "fst (eigh N (get_matrix L (make_anderson_model L (PInt 1) (PFloat (1 / 2))
             (PList [PInt 1]) (PList [PInt 2])))) = b # bs"
    using assms(2) by (auto simp: neq_Nil_conv)
  show ?thesis
    by (simp add: run_upto_def notebook_cells_def cell_siam_U0_eq [OF e0] cell_siam_U1_eq e1
        construct_product_circ_eq cell_defs siam_modes_def)
qed

theorem anderson_model_constructions_witness:
  "fst (eigh stub_numpy (get_matrix stub_qat (make_anderson_model stub_qat (PInt 0) (PFloat 0)
             (PList [PInt 1]) (PList [PInt 2])))) \<noteq> []
   \<and> fst (eigh stub_numpy (get_matrix stub_qat (make_anderson_model stub_qat (PInt 1) (PFloat (1 / 2))
             (PList [PInt 1]) (PList [PInt 2])))) \<noteq> []
   \<and> (\<exists>g1 g9. run_upto 1 stub_qat stub_numpy stub_depolarizing = Inr g1
        \<and> run_upto 9 stub_qat stub_numpy stub_depolarizing = Inr g9
        \<and> hamilt_0 g1 = Some [PInt 0, PFloat 0, PList [PInt 1], PList [PInt 2]]
        \<and> hamilt_1 g9 = Some [PInt 1, PFloat (1 / 2), PList [PInt 1], PList [PInt 2]]
        \<and> map_option nbqbits (circ g9) = Some 4)"
proof -
  have h0: "fst (eigh stub_numpy (get_matrix stub_qat (make_anderson_model stub_qat (PInt 0) (PFloat 0)
             (PList [PInt 1]) (PList [PInt 2])))) \<noteq> []"
    by (simp add: stub_eigvals_U0)
  have h1: "fst (eigh stub_numpy (get_matrix stub_qat (make_anderson_model stub_qat (PInt 1) (PFloat (1 / 2))
             (PList [PInt 1]) (PList [PInt 2])))) \<noteq> []"
    by (simp add: stub_eigvals_U1)
  show ?thesis
    using anderson_model_constructions [OF h0 h1, of stub_depolarizing] h0 h1
    by (auto simp: stub_qat_simps siam_modes_def)
qed

text \<open>
  Claim C6. The reference energies \<^verbatim>\<open>E0_U0\<close> and \<^verbatim>\<open>E0_U1\<close> are each the first entry
  of the eigenvalue array that \<^verbatim>\<open>np.linalg.eigh\<close> returns on the dense matrix of the
  Hamiltonian (\<^verbatim>\<open>hamilt_0.get_matrix()\<close>, \<^verbatim>\<open>hamilt_1.get_matrix()\<close>); as
  \<^verbatim>\<open>eigh\<close> returns the eigenvalues in ascending order, this entry is the minimum
  eigenvalue.
\<close>

theorem reference_energies_minimal:
  fixes L :: "('h, 'm, 'o, 'c, 'r) qat" and N :: "('m, 'v) numpy_linalg"
    and D :: "'c depolarizing_plugin"
  assumes "fst (eigh N (get_matrix L (make_anderson_model L (PInt 0) (PFloat 0)
             (PList [PInt 1]) (PList [PInt 2])))) \<noteq> []"
    and "sorted (fst (eigh N (get_matrix L (make_anderson_model L (PInt 0) (PFloat 0)
             (PList [PInt 1]) (PList [PInt 2])))))"
    and "fst (eigh N (get_matrix L (make_anderson_model L (PInt 1) (PFloat (1 / 2))
             (PList [PInt 1]) (PList [PInt 2])))) \<noteq> []"
    and "sorted (fst (eigh N (get_matrix L (make_anderson_model L (PInt 1) (PFloat (1 / 2))
             (PList [PInt 1]) (PList [PInt 2])))))"
  shows "\<exists>g.
      run_notebook L N D = Inr g
    \<and> hamilt_0 g = Some (make_anderson_model L (PInt 0) (PFloat 0)
             (PList [PInt 1]) (PList [PInt 2]))
    \<and> h_mat_0 g = Some (get_matrix L (make_anderson_model L (PInt 0) (PFloat 0)
             (PList [PInt 1]) (PList [PInt 2])))
    \<and> E0_U0 g = Some (hd (fst (eigh N (get_matrix L (make_anderson_model L (PInt 0) (PFloat 0)
             (PList [PInt 1]) (PList [PInt 2]))))))
    \<and> E0_U0 g = Some (Min (set (fst (eigh N (get_matrix L (make_anderson_model L (PInt 0) (PFloat 0)
             (PList [PInt 1]) (PList [PInt 2])))))))
    \<and> hamilt_1 g = Some (make_anderson_model L (PInt 1) (PFloat (1 / 2))
             (PList [PInt 1]) (PList [PInt 2]))
    \<and> h_mat_1 g = Some (get_matrix L (make_anderson_model L (PInt 1) (PFloat (1 / 2))
             (PList [PInt 1]) (PList [PInt 2])))
    \<and> E0_U1 g = Some (hd (fst (eigh N (get_matrix L (make_anderson_model L (PInt 1) (PFloat (1 / 2))
             (PList [PInt 1]) (PList [PInt 2]))))))
    \<and> E0_U1 g = Some (Min (set (fst (eigh N (get_matrix L (make_anderson_model L (PInt 1) (PFloat (1 / 2))
             (PList [PInt 1]) (PList [PInt 2])))))))"
proof -
  obtain a as where e0: "fst (eigh N (get_matrix L (make_anderson_model L (PInt 0) (PFloat 0)
             (PList [PInt 1]) (PList [PInt 2])))) = a # as"
    using assms(1) by (auto simp: neq_Nil_conv)
  obtain b bs where e1: "fst (eigh N (get_matrix L (make_anderson_model L (PInt 1) (PFloat (1 / 2))
             (PList [PInt 1]) (PList [PInt 2])))) = b # bs"
    using assms(3) by (auto simp: neq_Nil_conv)
  have m0: "a = Min (set (a # as))"
    using sorted_hd_Min [OF assms(2) assms(1)] e0 by simp
  have m1: "b = Min (set (b # bs))"
    using sorted_hd_Min [OF assms(4) assms(3)] e1 by simp
  show ?thesis
    using m0 m1
    by (simp add: run_notebook_def notebook_cells_def cell_siam_U0_eq [OF e0] cell_siam_U1_eq
        e1 e0 construct_product_circ_eq cell_defs del: set_simps)
qed

theorem reference_energies_minimal_witness:
  "fst (eigh stub_numpy (get_matrix stub_qat (make_anderson_model stub_qat (PInt 0) (PFloat 0)
             (PList [PInt 1]) (PList [PInt 2])))) \<noteq> []
   \<and> sorted (fst (eigh stub_numpy (get_matrix stub_qat (make_anderson_model stub_qat (PInt 0) (PFloat 0)
             (PList [PInt 1]) (PList [PInt 2])))))
   \<and> fst (eigh stub_numpy (get_matrix stub_qat (make_anderson_model stub_qat (PInt 1) (PFloat (1 / 2))
             (PList [PInt 1]) (PList [PInt 2])))) \<noteq> []
   \<and> sorted (fst (eigh stub_numpy (get_matrix stub_qat (make_anderson_model stub_qat (PInt 1) (PFloat (1 / 2))
             (PList [PInt 1]) (PList [PInt 2])))))
   \<and> (\<exists>g. run_notebook stub_qat stub_numpy stub_depolarizing = Inr g
        \<and> E0_U0 g = Some (- 1) \<and> E0_U1 g = Some (- 2))"
proof -
  have h0: "fst (eigh stub_numpy (get_matrix stub_qat (make_anderson_model stub_qat (PInt 0) (PFloat 0)
             (PList [PInt 1]) (PList [PInt 2])))) \<noteq> []"
    by (simp add: stub_eigvals_U0)
  have s0: "sorted (fst (eigh stub_numpy (get_matrix stub_qat (make_anderson_model stub_qat (PInt 0) (PFloat 0)
             (PList [PInt 1]) (PList [PInt 2])))))"
    by (simp add: stub_eigvals_U0)
  have h1: "fst (eigh stub_numpy (get_matrix stub_qat (make_anderson_model stub_qat (PInt 1) (PFloat (1 / 2))
             (PList [PInt 1]) (PList [PInt 2])))) \<noteq> []"
    by (simp add: stub_eigvals_U1)
  have s1: "sorted (fst (eigh stub_numpy (get_matrix stub_qat (make_anderson_model stub_qat (PInt 1) (PFloat (1 / 2))
             (PList [PInt 1]) (PList [PInt 2])))))"
    by (simp add: stub_eigvals_U1)
  have "Min (set (fst (eigh stub_numpy (get_matrix stub_qat (make_anderson_model stub_qat (PInt 0) (PFloat 0)
             (PList [PInt 1]) (PList [PInt 2])))))) = - 1"
    by (simp add: stub_eigvals_U0)
  moreover have "Min (set (fst (eigh stub_numpy (get_matrix stub_qat (make_anderson_model stub_qat (PInt 1) (PFloat (1 / 2))
             (PList [PInt 1]) (PList [PInt 2])))))) = - 2"
    by (simp add: stub_eigvals_U1)
  ultimately show ?thesis
    using reference_energies_minimal [OF h0 s0 h1 s1, of stub_depolarizing] h0 s0 h1 s1
    by auto
qed

section \<open>From the \<open>U = 0\<close> section to the \<open>U = 1\<close> section\<close>

text \<open>
  Claim C9. From the \<open>U = 0\<close> section to the \<open>U = 1\<close> section the interaction
  strength goes from \<open>0\<close> to \<open>1\<close>, and the bath parameters do not change: \<^verbatim>\<open>V\<close> and
  \<^verbatim>\<open>epsilon\<close> are bound once, to \<open>[1]\<close> and \<open>[2]\<close>, and both calls of
  \<^verbatim>\<open>make_anderson_model\<close> use them. The chemical potential satisfies
  \<^verbatim>\<open>mu = U/2\<close> after the first cell, just before the \<open>U = 1\<close> cell, after it, and at
  the end of the notebook.
\<close>

theorem bath_parameters_unchanged:
  fixes L :: "('h, 'm, 'o, 'c, 'r) qat" and N :: "('m, 'v) numpy_linalg"
    and D :: "'c depolarizing_plugin"
  assumes "fst (eigh N (get_matrix L (make_anderson_model L (PInt 0) (PFloat 0)
             (PList [PInt 1]) (PList [PInt 2])))) \<noteq> []"
    and "fst (eigh N (get_matrix L (make_anderson_model L (PInt 1) (PFloat (1 / 2))
             (PList [PInt 1]) (PList [PInt 2])))) \<noteq> []"
  shows "\<exists>g1 g8 g9 g.
      run_upto 1 L N D = Inr g1 \<and> run_upto 8 L N D = Inr g8
    \<and> run_upto 9 L N D = Inr g9 \<and> run_notebook L N D = Inr g
    \<and> U g1 = Some (PInt 0) \<and> U g8 = Some (PInt 0)
    \<and> U g9 = Some (PInt 1) \<and> U g = Some (PInt 1)
    \<and> V g1 = Some (PList [PInt 1]) \<and> epsilon g1 = Some (PList [PInt 2])
    \<and> V g8 = V g1 \<and> epsilon g8 = epsilon g1
    \<and> V g9 = V g1 \<and> epsilon g9 = epsilon g1
    \<and> V g = V g1 \<and> epsilon g = epsilon g1
    \<and> half_filling g1 \<and> half_filling g8 \<and> half_filling g9 \<and> half_filling g
    \<and> hamilt_0 g1 = Some (make_anderson_model L (PInt 0) (PFloat 0)
                            (PList [PInt 1]) (PList [PInt 2]))
    \<and> hamilt_1 g9 = Some (make_anderson_model L (PInt 1) (PFloat (1 / 2))
                            (PList [PInt 1]) (PList [PInt 2]))"
proof -
  obtain a as where e0: "fst (eigh N (get_matrix L (make_anderson_model L (PInt 0) (PFloat 0)
             (PList [PInt 1]) (PList [PInt 2])))) = a # as"
    using assms(1) by (auto simp: neq_Nil_conv)
  obtain b bs where e1: "fst (eigh N (get_matrix L (make_anderson_model L (PInt 1) (PFloat (1 / 2))
             (PList [PInt 1]) (PList [PInt 2])))) = b # bs"
    using assms(2) by (auto simp: neq_Nil_conv)
  show ?thesis
    by (simp add: run_upto_def run_notebook_def notebook_cells_def cell_siam_U0_eq [OF e0]
        cell_siam_U1_eq e1 construct_product_circ_eq cell_defs half_filling_def truediv_def)
qed

theorem bath_parameters_unchanged_witness:
  "fst (eigh stub_numpy (get_matrix stub_qat (make_anderson_model stub_qat (PInt 0) (PFloat 0)
             (PList [PInt 1]) (PList [PInt 2])))) \<noteq> []
   \<and> fst (eigh stub_numpy (get_matrix stub_qat (make_anderson_model stub_qat (PInt 1) (PFloat (1 / 2))
             (PList [PInt 1]) (PList [PInt 2])))) \<noteq> []
   \<and> (\<exists>g1 g9. run_upto 1 stub_qat stub_numpy stub_depolarizing = Inr g1
        \<and> run_upto 9 stub_qat stub_numpy stub_depolarizing = Inr g9
        \<and> U g1 = Some (PInt 0) \<and> U g9 = Some (PInt 1)
        \<and> V g9 = V g1 \<and> epsilon g9 = epsilon g1
        \<and> half_filling g1 \<and> half_filling g9)"
proof -
  have h0: "fst (eigh stub_numpy (get_matrix stub_qat (make_anderson_model stub_qat (PInt 0) (PFloat 0)
             (PList [PInt 1]) (PList [PInt 2])))) \<noteq> []"
    by (simp add: stub_eigvals_U0)
  have h1: "fst (eigh stub_numpy (get_matrix stub_qat (make_anderson_model stub_qat (PInt 1) (PFloat (1 / 2))
             (PList [PInt 1]) (PList [PInt 2])))) \<noteq> []"
    by (simp add: stub_eigvals_U1)
  show ?thesis
    using bath_parameters_unchanged [OF h0 h1, of stub_depolarizing] h0 h1
    by auto
qed

section \<open>Running a session\<close>






section \<open>Hardware noise\<close>




end
